theory Spec2Isabelle
  imports Main "HOL-Library.Monad_Syntax"
begin

section \<open>ClassicalLogicGates.ipynb: circuits of X, CNOT and Toffoli gates\<close>

text \<open>
  Each function of the notebook builds a circuit on a quantum register and a classical
  register, with the methods \<open>x\<close>, \<open>cx\<close>, \<open>ccx\<close> and \<open>measure\<close>, runs it for
  one shot on the simulator and returns the measured bitstring. A Python exception is
  the value \<open>None\<close>.
\<close>

subsection \<open>Circuits\<close>

text \<open>
  Modelled from the spec: the quantum-computing library that the notebook imports
  (registers and circuits, the gates X, CNOT and Toffoli, measurement, and execution on
  the simulated backend) is not part of the repository. A circuit is the sizes of its two registers
  and the list of its instructions, in the order the notebook's calls add them.
\<close>

datatype instruction =
    XGate nat
  | CXGate nat nat
  | CCXGate nat nat nat
  | Measure nat nat

record quantum_circuit =
  qubits :: nat
  clbits :: nat
  data :: "instruction list"

definition QuantumCircuit :: "nat \<Rightarrow> nat \<Rightarrow> quantum_circuit" where
  "QuantumCircuit q c = \<lparr>qubits = q, clbits = c, data = []\<rparr>"

text \<open>
  \<open>q[i]\<close> and \<open>c[i]\<close> raise when \<open>i\<close> is outside the register, and a gate on a
  repeated qubit is rejected; otherwise the instruction is appended to the circuit.
\<close>

definition qc_x :: "quantum_circuit \<Rightarrow> nat \<Rightarrow> quantum_circuit option" where
  "qc_x qc i =
     (if i < qubits qc then Some (qc\<lparr>data := data qc @ [XGate i]\<rparr>) else None)"

definition qc_cx :: "quantum_circuit \<Rightarrow> nat \<Rightarrow> nat \<Rightarrow> quantum_circuit option" where
  "qc_cx qc ctl tgt =
     (if ctl < qubits qc \<and> tgt < qubits qc \<and> ctl \<noteq> tgt
      then Some (qc\<lparr>data := data qc @ [CXGate ctl tgt]\<rparr>) else None)"

definition qc_ccx :: "quantum_circuit \<Rightarrow> nat \<Rightarrow> nat \<Rightarrow> nat \<Rightarrow> quantum_circuit option" where
  "qc_ccx qc ctl1 ctl2 tgt =
     (if ctl1 < qubits qc \<and> ctl2 < qubits qc \<and> tgt < qubits qc
         \<and> ctl1 \<noteq> ctl2 \<and> ctl1 \<noteq> tgt \<and> ctl2 \<noteq> tgt
      then Some (qc\<lparr>data := data qc @ [CCXGate ctl1 ctl2 tgt]\<rparr>) else None)"

definition qc_measure :: "quantum_circuit \<Rightarrow> nat \<Rightarrow> nat \<Rightarrow> quantum_circuit option" where
  "qc_measure qc qb cb =
     (if qb < qubits qc \<and> cb < clbits qc
      then Some (qc\<lparr>data := data qc @ [Measure qb cb]\<rparr>) else None)"

subsection \<open>The simulator on computational basis states\<close>

text \<open>
  Modelled from the spec: the simulated backend, also the library's. Every qubit starts
  in \<open>|0\<rangle>\<close> and the notebook applies only X, CNOT and Toffoli, which map a basis
  state to a basis state, so a register is a list of bits and every shot measures the
  same bits. The gates act as the tables in the notebook's text cells say: X is NOT,
  CNOT maps \<open>(q0, q1)\<close> to \<open>(q0, q0 XOR q1)\<close>, and Toffoli maps \<open>(q0, q1, q2)\<close> to
  \<open>(q0, q1, (q0 AND q1) XOR q2)\<close>. A state is the pair of the quantum and the
  classical register; \<open>measure\<close> copies a qubit into a classical bit.
\<close>

type_synonym registers = "bool list \<times> bool list"

fun apply_instruction :: "instruction \<Rightarrow> registers \<Rightarrow> registers" where
  "apply_instruction (XGate i) (qs, cs) = (qs[i := \<not> qs ! i], cs)"
| "apply_instruction (CXGate ctl tgt) (qs, cs) = (qs[tgt := (qs ! ctl \<noteq> qs ! tgt)], cs)"
| "apply_instruction (CCXGate ctl1 ctl2 tgt) (qs, cs) =
     (qs[tgt := ((qs ! ctl1 \<and> qs ! ctl2) \<noteq> qs ! tgt)], cs)"
| "apply_instruction (Measure qb cb) (qs, cs) = (qs, cs[cb := qs ! qb])"

fun run :: "instruction list \<Rightarrow> registers \<Rightarrow> registers" where
  "run [] s = s"
| "run (i # is) s = run is (apply_instruction i s)"

fun valid_instruction :: "quantum_circuit \<Rightarrow> instruction \<Rightarrow> bool" where
  "valid_instruction qc (XGate i) = (i < qubits qc)"
| "valid_instruction qc (CXGate ctl tgt) = (ctl < qubits qc \<and> tgt < qubits qc \<and> ctl \<noteq> tgt)"
| "valid_instruction qc (CCXGate ctl1 ctl2 tgt) =
     (ctl1 < qubits qc \<and> ctl2 < qubits qc \<and> tgt < qubits qc
      \<and> ctl1 \<noteq> ctl2 \<and> ctl1 \<noteq> tgt \<and> ctl2 \<noteq> tgt)"
| "valid_instruction qc (Measure qb cb) = (qb < qubits qc \<and> cb < clbits qc)"

text \<open>The bitstring of a classical register shows the highest bit first.\<close>

definition bitstring :: "bool list \<Rightarrow> string" where
  "bitstring cs = rev (map (\<lambda>b. if b then CHR ''1'' else CHR ''0'') cs)"

text \<open>
  \<open>execute(qc, backend, shots=n, memory=m).result()\<close>: the dictionary of the outcomes
  with the number of shots that gave each, and, only when \<open>memory=True\<close> was asked for,
  the bitstring of every shot in order.
\<close>

record experiment_result =
  counts :: "(string \<times> nat) list"
  memory :: "string list option"

definition execute :: "quantum_circuit \<Rightarrow> nat \<Rightarrow> bool \<Rightarrow> experiment_result option" where
  "execute qc shots mem =
     (if list_all (valid_instruction qc) (data qc)
      then
        let outcome = bitstring (snd (run (data qc)
              (replicate (qubits qc) False, replicate (clbits qc) False)))
        in Some \<lparr>counts = (if shots = 0 then [] else [(outcome, shots)]),
                 memory = (if mem then Some (replicate shots outcome) else None)\<rparr>
      else None)"

definition get_counts :: "experiment_result \<Rightarrow> (string \<times> nat) list" where
  "get_counts result = counts result"

text \<open>\<open>get_memory()\<close> raises when the job was run without \<open>memory=True\<close>.\<close>

definition get_memory :: "experiment_result \<Rightarrow> string list option" where
  "get_memory result = memory result"

text \<open>\<open>next(iter(d))\<close>: the first key of a dictionary; StopIteration when it is empty.\<close>

fun next_iter :: "('k \<times> 'v) list \<Rightarrow> 'k option" where
  "next_iter [] = None"
| "next_iter ((k, v) # kvs) = Some k"

text \<open>\<open>xs[i]\<close> for a non-negative \<open>i\<close>: IndexError when out of range.\<close>

definition getitem :: "'a list \<Rightarrow> nat \<Rightarrow> 'a option" where
  "getitem xs i = (if i < length xs then Some (xs ! i) else None)"

subsection \<open>The gate functions\<close>

definition NOT :: "string \<Rightarrow> string option" where
  "NOT input = do {
     let qc = QuantumCircuit 1 1;
     qc \<leftarrow> (if input = ''1'' then qc_x qc 0 else Some qc);
     qc \<leftarrow> qc_x qc 0;
     qc \<leftarrow> qc_measure qc 0 0;
     result \<leftarrow> execute qc 1 False;
     next_iter (get_counts result)
   }"

definition XOR :: "string \<Rightarrow> string \<Rightarrow> string option" where
  "XOR input1 input2 = do {
     let qc = QuantumCircuit 2 1;
     qc \<leftarrow> (if input1 = ''1'' then qc_x qc 0 else Some qc);
     qc \<leftarrow> (if input2 = ''1'' then qc_x qc 1 else Some qc);
     qc \<leftarrow> qc_cx qc 0 1;
     qc \<leftarrow> qc_measure qc 1 0;
     result \<leftarrow> execute qc 1 True;
     shots \<leftarrow> get_memory result;
     getitem shots 0
   }"

definition AND :: "string \<Rightarrow> string \<Rightarrow> string option" where
  "AND input1 input2 = do {
     let qc = QuantumCircuit 3 1;
     qc \<leftarrow> (if input1 = ''1'' then qc_x qc 0 else Some qc);
     qc \<leftarrow> (if input2 = ''1'' then qc_x qc 1 else Some qc);
     qc \<leftarrow> qc_ccx qc 0 1 2;
     qc \<leftarrow> qc_measure qc 2 0;
     result \<leftarrow> execute qc 1 True;
     shots \<leftarrow> get_memory result;
     getitem shots 0
   }"

definition NAND :: "string \<Rightarrow> string \<Rightarrow> string option" where
  "NAND input1 input2 = do {
     let qc = QuantumCircuit 3 1;
     qc \<leftarrow> (if input1 = ''1'' then qc_x qc 0 else Some qc);
     qc \<leftarrow> (if input2 = ''1'' then qc_x qc 1 else Some qc);
     qc \<leftarrow> qc_ccx qc 0 1 2;
     qc \<leftarrow> qc_x qc 2;
     qc \<leftarrow> qc_measure qc 2 0;
     result \<leftarrow> execute qc 1 True;
     shots \<leftarrow> get_memory result;
     getitem shots 0
   }"

definition OR :: "string \<Rightarrow> string \<Rightarrow> string option" where
  "OR input1 input2 = do {
     let qc = QuantumCircuit 3 1;
     qc \<leftarrow> (if input1 = ''1'' then qc_x qc 0 else Some qc);
     qc \<leftarrow> (if input2 = ''1'' then qc_x qc 1 else Some qc);
     qc \<leftarrow> qc_ccx qc 0 1 2;
     qc \<leftarrow> qc_cx qc 0 1;
     qc \<leftarrow> qc_cx qc 1 2;
     qc \<leftarrow> qc_measure qc 2 0;
     result \<leftarrow> execute qc 1 True;
     shots \<leftarrow> get_memory result;
     getitem shots 0
   }"

definition FANOUT :: "string \<Rightarrow> string option" where
  "FANOUT input = do {
     let qc = QuantumCircuit 2 2;
     qc \<leftarrow> (if input = ''1'' then do { qc \<leftarrow> qc_x qc 0; qc_x qc 1 } else Some qc);
     qc \<leftarrow> qc_measure qc 0 0;
     qc \<leftarrow> qc_measure qc 1 1;
     result \<leftarrow> execute qc 1 True;
     shots \<leftarrow> get_memory result;
     getitem shots 0
   }"

subsection \<open>Reading a bit\<close>

text \<open>
  The classical meaning of the strings, used to state what the gates compute:
  \<open>'1'\<close> is the bit 1 and \<open>'0'\<close> the bit 0.
\<close>

definition bit_of_string :: "string \<Rightarrow> nat" where
  "bit_of_string s = (if s = ''1'' then 1 else 0)"

definition string_of_bit :: "nat \<Rightarrow> string" where
  "string_of_bit n = (if n = 0 then ''0'' else ''1'')"

section \<open>QAOA.ipynb: the objective handed to the minimizer\<close>

text \<open>
  The notebook's global variables (\<open>Hc\<close>, \<open>Hm\<close>, \<open>qreg\<close>, \<open>circuit_init\<close>,
  \<open>p\<close>) and the library calls it makes, which are not part of the notebook and are
  taken as parameters: \<open>WeightedPauliOperator.evolve\<close>, the \<open>+\<close> of circuits,
  \<open>construct_evaluation_circuit\<close>, \<open>execute(...).result()\<close> and
  \<open>evaluate_with_result\<close>. The types of Hamiltonians \<open>'h\<close>, registers \<open>'q\<close>,
  circuits \<open>'c\<close>, results \<open>'r\<close>, angles \<open>'a\<close> and expectation values \<open>'v\<close> are
  the library's and stay abstract; the notebook does no arithmetic on an angle.
\<close>

record ('h, 'q, 'c, 'r, 'a, 'v) notebook =
  Hc :: 'h
  Hm :: 'h
  qreg :: 'q
  circuit_init :: 'c
  p :: nat
  operator_evolve :: "'h \<Rightarrow> 'c option \<Rightarrow> 'a \<Rightarrow> nat \<Rightarrow> 'q \<Rightarrow> string \<Rightarrow> nat \<Rightarrow> 'c"
  circuit_add :: "'c \<Rightarrow> 'c \<Rightarrow> 'c"
  construct_evaluation_circuit :: "'h \<Rightarrow> 'c \<Rightarrow> bool \<Rightarrow> 'q \<Rightarrow> 'c"
  execute_result :: "'c \<Rightarrow> string \<Rightarrow> nat \<Rightarrow> 'r"
  evaluate_with_result :: "'h \<Rightarrow> 'r \<Rightarrow> bool \<Rightarrow> 'v"

definition evolve ::
  "('h, 'q, 'c, 'r, 'a, 'v) notebook \<Rightarrow> 'h \<Rightarrow> 'a \<Rightarrow> 'q \<Rightarrow> 'c" where
  "evolve nb hamiltonian angle qr =
     operator_evolve nb hamiltonian None angle 1 qr ''trotter'' 3"

text \<open>
  \<open>sum([... for i in range(p)], circuit_init)\<close>: the list is built first, reading
  \<open>beta[i]\<close> and \<open>gamma[i]\<close> (IndexError when a list is too short), and then added
  onto \<open>circuit_init\<close> from the left.
\<close>

definition create_circuit ::
  "('h, 'q, 'c, 'r, 'a, 'v) notebook \<Rightarrow> 'a list \<Rightarrow> 'a list \<Rightarrow> 'c option" where
  "create_circuit nb beta gamma = do {
     terms \<leftarrow> those (map (\<lambda>i. do {
         b \<leftarrow> getitem beta i;
         g \<leftarrow> getitem gamma i;
         Some (circuit_add nb (evolve nb (Hc nb) b (qreg nb)) (evolve nb (Hm nb) g (qreg nb)))
       }) [0..<p nb]);
     Some (foldl (circuit_add nb) (circuit_init nb) terms)
   }"

definition evaluate_circuit ::
  "('h, 'q, 'c, 'r, 'a, 'v) notebook \<Rightarrow> 'a list \<Rightarrow> 'v option" where
  "evaluate_circuit nb beta_gamma = do {
     b \<leftarrow> getitem beta_gamma 0;
     g \<leftarrow> getitem beta_gamma 1;
     circuit \<leftarrow> create_circuit nb [b] [g];
     let c = construct_evaluation_circuit nb (Hc nb) circuit True (qreg nb);
     let result = execute_result nb c ''statevector_simulator'' 1000;
     Some (evaluate_with_result nb (Hc nb) result True)
   }"

text \<open>
  A small instance of the parameters, to run \<open>evaluate_circuit\<close> on: a circuit is the
  list of its evolution steps, and the value of a circuit is the sum of its angles.
\<close>

definition toy_notebook ::
  "(string, nat, (string \<times> int) list, (string \<times> int) list, int, int) notebook" where
  "toy_notebook = \<lparr>
     Hc = ''ZZ'', Hm = ''X'', qreg = 2, circuit_init = [(''H'', 0)], p = 1,
     operator_evolve = (\<lambda>h st angle slices qr mode ord. [(h, angle)]),
     circuit_add = (\<lambda>c1 c2. c1 @ c2),
     construct_evaluation_circuit = (\<lambda>h c sv qr. c),
     execute_result = (\<lambda>c backend shots. c),
     evaluate_with_result = (\<lambda>h r sv. sum_list (map snd r))
   \<rparr>"

section \<open>Properties of the gate functions\<close>

lemmas circuit_defs =
  QuantumCircuit_def qc_x_def qc_cx_def qc_ccx_def qc_measure_def
  execute_def get_memory_def get_counts_def getitem_def bitstring_def Let_def

text \<open>Each function, for every pair of strings: only equality with \<open>'1'\<close> matters.\<close>

lemma NOT_table: "NOT a = Some (if a = ''1'' then ''0'' else ''1'')"
  by (simp add: NOT_def circuit_defs)

lemma XOR_table: "XOR a b = Some (if (a = ''1'') \<noteq> (b = ''1'') then ''1'' else ''0'')"
  by (simp add: XOR_def circuit_defs)

lemma AND_table: "AND a b = Some (if a = ''1'' \<and> b = ''1'' then ''1'' else ''0'')"
  by (simp add: AND_def circuit_defs)

lemma NAND_table: "NAND a b = Some (if a = ''1'' \<and> b = ''1'' then ''0'' else ''1'')"
  by (simp add: NAND_def circuit_defs)

lemma OR_table: "OR a b = Some (if a = ''1'' \<or> b = ''1'' then ''1'' else ''0'')"
  by (simp add: OR_def circuit_defs)

lemma FANOUT_table: "FANOUT a = Some (if a = ''1'' then ''11'' else ''00'')"
  by (simp add: FANOUT_def circuit_defs numeral_2_eq_2)

lemmas gate_tables =
  NOT_table XOR_table AND_table NAND_table OR_table FANOUT_table

text \<open>
  C1. For input strings drawn from \<open>{'0', '1'}\<close>, each function returns the output of
  its classical gate: NOT the complement bit, XOR the sum modulo 2, AND the conjunction
  (the product of the bits), NAND its complement, OR the disjunction (the larger bit),
  and FANOUT two copies of the input bit.
\<close>

theorem gates_compute_classical_logic:
  assumes "input1 \<in> {''0'', ''1''}" and "input2 \<in> {''0'', ''1''}"
  shows "NOT input1 = Some (string_of_bit (1 - bit_of_string input1))
       \<and> XOR input1 input2
           = Some (string_of_bit ((bit_of_string input1 + bit_of_string input2) mod 2))
       \<and> AND input1 input2
           = Some (string_of_bit (bit_of_string input1 * bit_of_string input2))
       \<and> NAND input1 input2
           = Some (string_of_bit (1 - bit_of_string input1 * bit_of_string input2))
       \<and> OR input1 input2
           = Some (string_of_bit (max (bit_of_string input1) (bit_of_string input2)))
       \<and> FANOUT input1 = Some (input1 @ input1)"
  using assms by (auto simp: gate_tables bit_of_string_def string_of_bit_def)

theorem gates_compute_classical_logic_witness:
  "''1'' \<in> {''0'', ''1''} \<and> ''0'' \<in> {''0'', ''1''}
   \<and> NOT ''1'' = Some ''0'' \<and> XOR ''1'' ''0'' = Some ''1'' \<and> AND ''1'' ''0'' = Some ''0''
   \<and> NAND ''1'' ''0'' = Some ''1'' \<and> OR ''1'' ''0'' = Some ''1''
   \<and> FANOUT ''1'' = Some ''11''"
  using gates_compute_classical_logic [of "''1''" "''0''"]
  by (simp add: bit_of_string_def string_of_bit_def)

text \<open>
  C8. A string other than \<open>'1'\<close> is treated as \<open>'0'\<close>: NOT and FANOUT give what they
  give on \<open>'0'\<close>, and in either argument of XOR, AND, NAND and OR it can be replaced by
  \<open>'0'\<close> without changing the output, whatever the other argument is.
\<close>

theorem not_one_is_zero:
  assumes "s \<noteq> ''1''"
  shows "NOT s = NOT ''0'' \<and> FANOUT s = FANOUT ''0''
       \<and> (\<forall>t. XOR s t = XOR ''0'' t \<and> XOR t s = XOR t ''0''
              \<and> AND s t = AND ''0'' t \<and> AND t s = AND t ''0''
              \<and> NAND s t = NAND ''0'' t \<and> NAND t s = NAND t ''0''
              \<and> OR s t = OR ''0'' t \<and> OR t s = OR t ''0'')"
  using assms by (simp add: gate_tables)

theorem not_one_is_zero_witness:
  "''10'' \<noteq> ''1'' \<and> NOT ''10'' = NOT ''0'' \<and> FANOUT ''10'' = FANOUT ''0''
   \<and> (\<forall>t. XOR ''10'' t = XOR ''0'' t \<and> XOR t ''10'' = XOR t ''0''
          \<and> AND ''10'' t = AND ''0'' t \<and> AND t ''10'' = AND t ''0''
          \<and> NAND ''10'' t = NAND ''0'' t \<and> NAND t ''10'' = NAND t ''0''
          \<and> OR ''10'' t = OR ''0'' t \<and> OR t ''10'' = OR t ''0'')"
  using not_one_is_zero [of "''10''"] by simp

text \<open>
  C9. For inputs in \<open>{'0', '1'}\<close>, NOT, XOR, AND, NAND and OR return a string of one
  character, \<open>'0'\<close> or \<open>'1'\<close>, and FANOUT returns a string of two equal characters,
  \<open>'00'\<close> or \<open>'11'\<close>.
\<close>

theorem gate_outputs_are_bitstrings:
  assumes "input1 \<in> {''0'', ''1''}" and "input2 \<in> {''0'', ''1''}"
  shows "(\<exists>c \<in> {CHR ''0'', CHR ''1''}. NOT input1 = Some [c])
       \<and> (\<exists>c \<in> {CHR ''0'', CHR ''1''}. XOR input1 input2 = Some [c])
       \<and> (\<exists>c \<in> {CHR ''0'', CHR ''1''}. AND input1 input2 = Some [c])
       \<and> (\<exists>c \<in> {CHR ''0'', CHR ''1''}. NAND input1 input2 = Some [c])
       \<and> (\<exists>c \<in> {CHR ''0'', CHR ''1''}. OR input1 input2 = Some [c])
       \<and> (\<exists>c \<in> {CHR ''0'', CHR ''1''}. FANOUT input1 = Some [c, c])"
  by (simp add: gate_tables)

theorem gate_outputs_are_bitstrings_witness:
  "''0'' \<in> {''0'', ''1''} \<and> ''1'' \<in> {''0'', ''1''}
   \<and> (\<exists>c \<in> {CHR ''0'', CHR ''1''}. NOT ''0'' = Some [c])
   \<and> (\<exists>c \<in> {CHR ''0'', CHR ''1''}. XOR ''0'' ''1'' = Some [c])
   \<and> (\<exists>c \<in> {CHR ''0'', CHR ''1''}. AND ''0'' ''1'' = Some [c])
   \<and> (\<exists>c \<in> {CHR ''0'', CHR ''1''}. NAND ''0'' ''1'' = Some [c])
   \<and> (\<exists>c \<in> {CHR ''0'', CHR ''1''}. OR ''0'' ''1'' = Some [c])
   \<and> (\<exists>c \<in> {CHR ''0'', CHR ''1''}. FANOUT ''0'' = Some [c, c])"
  using gate_outputs_are_bitstrings [of "''0''" "''1''"] by simp

section \<open>Properties of the objective\<close>

lemma create_circuit_single:
  "p nb = 1 \<Longrightarrow> create_circuit nb [b] [g] =
     Some (circuit_add nb (circuit_init nb)
       (circuit_add nb (evolve nb (Hc nb) b (qreg nb)) (evolve nb (Hm nb) g (qreg nb))))"
  by (simp add: create_circuit_def getitem_def)

text \<open>
  C10. \<open>evaluate_circuit\<close> depends on its argument through the components 0 and 1
  only: two vectors that agree there get the same result; and with the notebook's
  \<open>p = 1\<close> that result is the expectation value of the circuit made of
  \<open>circuit_init\<close>, the evolution under \<open>Hc\<close> by \<open>beta_gamma[0]\<close> and the evolution under
  \<open>Hm\<close> by \<open>beta_gamma[1]\<close>.
\<close>

theorem evaluate_circuit_first_two:
  assumes "1 < length bg" and "1 < length bg'"
    and "bg ! 0 = bg' ! 0" and "bg ! 1 = bg' ! 1"
  shows "evaluate_circuit nb bg = evaluate_circuit nb bg'
       \<and> (p nb = 1 \<longrightarrow> evaluate_circuit nb bg =
            Some (evaluate_with_result nb (Hc nb)
              (execute_result nb
                (construct_evaluation_circuit nb (Hc nb)
                  (circuit_add nb (circuit_init nb)
                    (circuit_add nb (evolve nb (Hc nb) (bg ! 0) (qreg nb))
                                    (evolve nb (Hm nb) (bg ! 1) (qreg nb))))
                  True (qreg nb))
                ''statevector_simulator'' 1000)
              True))"
proof -
  have "0 < length bg" and "0 < length bg'"
    using assms(1,2) by auto
  with assms have reads:
    "getitem bg 0 = Some (bg ! 0)" "getitem bg 1 = Some (bg ! 1)"
    "getitem bg' 0 = Some (bg ! 0)" "getitem bg' 1 = Some (bg ! 1)"
    unfolding getitem_def by simp_all
  show ?thesis
    unfolding evaluate_circuit_def reads by (simp add: create_circuit_single)
qed

theorem evaluate_circuit_first_two_witness:
  "1 < length [3, 4, 5 :: int] \<and> 1 < length [3, 4 :: int]
   \<and> [3, 4, 5 :: int] ! 0 = [3, 4] ! 0 \<and> [3, 4, 5 :: int] ! 1 = [3, 4] ! 1
   \<and> p toy_notebook = 1
   \<and> evaluate_circuit toy_notebook [3, 4, 5] = evaluate_circuit toy_notebook [3, 4]
   \<and> evaluate_circuit toy_notebook [3, 4, 5] = Some 7"
proof -
  note inst = evaluate_circuit_first_two [of "[3, 4, 5]" "[3, 4]" toy_notebook]
  have one: "p toy_notebook = 1"
    by (simp add: toy_notebook_def)
  have same: "evaluate_circuit toy_notebook [3, 4, 5] = evaluate_circuit toy_notebook [3, 4]"
    using inst by simp
  have "evaluate_circuit toy_notebook [3, 4, 5] = Some 7"
    using inst one by (auto simp add: toy_notebook_def evolve_def)
  with one same show ?thesis
    by simp
qed

end
